theory Spec2Isabelle
  imports Complex_Main "HOL-Library.Signed_Division"
begin

section \<open>The Fourier coefficient kernel of \<^verbatim>\<open>source/PhaseShifts.c\<close>\<close>

text \<open>
  The file holds one function, \<^verbatim>\<open>real_and_imaginary_arrays_generator\<close>, which reads the
  global parameter structure \<^verbatim>\<open>sp\<close>, adds one trigonometric term per diffraction order and
  sample position to the caller's array, divides the array by the resolution and prints two
  diagnostic lines.

  Numbers. A C \<^verbatim>\<open>double\<close> is modelled by a \<^typ>\<open>real\<close>: arithmetic is exact, there is no
  rounding, no overflow, no infinity and no NaN. The model therefore agrees with the
  program only where every denominator the program divides by is non-zero (HOL's
  \<open>x / 0\<close> is \<open>0\<close>, IEEE's is an infinity or a NaN), and the decimal constants of the source
  stand for the rationals they denote. A C \<^verbatim>\<open>int\<close> is modelled by an \<^typ>\<open>int\<close>; the only
  integer division of the source, \<^verbatim>\<open>(N-1)/2\<close>, truncates towards zero and is written
  with \<open>sdiv\<close>. No integer expression of the function can overflow, but \<^verbatim>\<open>N-1\<close> at the
  least int.

  The function is declared to return a pointer and has no return statement; the value
  of the call is not modelled, only the array it leaves and the lines it prints.
\<close>

subsection \<open>The parameter structure\<close>

text \<open>
  The declaration of \<^verbatim>\<open>sp\<close> is in \<^verbatim>\<open>BeamParams.h\<close>. The fields this function reads are
  the ones below: the lengths, angles, the velocity and the resolution are doubles, the
  two flags and the number of rows are ints (they are compared with the int literals
  \<^verbatim>\<open>0\<close> and \<^verbatim>\<open>1\<close> and used as a loop bound).
\<close>

record simulation_parameters =
  tilt_angle :: real
  wedge_angle :: real
  slit_height :: real
  grating_thickness :: real
  grating_period :: real
  resolution :: real
  particle_velocity :: real
  account_gravity :: int
  account_van_der_waals :: int
  number_of_rows_fourier_coefficient_array :: int

subsection \<open>Constants of the function\<close>

definition gravity_acceleration :: real where
  "gravity_acceleration = - (98 / 10)"

definition C3 :: real where
  "C3 = 20453 / 1000000"

definition hbar :: real where
  "hbar = 658212 / 10 ^ 18"

subsection \<open>Integration bounds (lines 62 to 90)\<close>

text \<open>The pair is \<open>(x_min, x_max)\<close>, with the branches in the order of the source.\<close>

definition integration_bounds :: "simulation_parameters \<Rightarrow> real \<times> real" where
  "integration_bounds sp =
    (if tilt_angle sp \<ge> 0 then
       (let x_min = slit_height sp * (1 / resolution sp - cos (tilt_angle sp) / 2) in
        if tilt_angle sp \<le> wedge_angle sp then
          (x_min, (slit_height sp * cos (tilt_angle sp)) / 2 - slit_height sp / resolution sp)
        else
          (x_min, slit_height sp * cos (tilt_angle sp) / 2 - slit_height sp / resolution sp
                    + grating_thickness sp * (tan (wedge_angle sp) - tan (tilt_angle sp))))
     else
       (let x_max = (slit_height sp * cos (tilt_angle sp) / 2) - slit_height sp / resolution sp in
        if \<bar>tilt_angle sp\<bar> \<le> wedge_angle sp then
          (- ((slit_height sp * cos (tilt_angle sp)) / 2) + slit_height sp / resolution sp, x_max)
        else
          (- ((slit_height sp * cos (tilt_angle sp)) / 2) + slit_height sp / resolution sp
             - grating_thickness sp * (tan (wedge_angle sp) - tan (tilt_angle sp)), x_max)))"

definition x_min_of :: "simulation_parameters \<Rightarrow> real" where
  "x_min_of sp = fst (integration_bounds sp)"

definition x_max_of :: "simulation_parameters \<Rightarrow> real" where
  "x_max_of sp = snd (integration_bounds sp)"

subsection \<open>Gravitational phase (lines 93 to 103)\<close>

definition time_free_fall :: "simulation_parameters \<Rightarrow> real \<Rightarrow> real" where
  "time_free_fall sp current_z_position = current_z_position / particle_velocity sp"

definition phase_gravity :: "simulation_parameters \<Rightarrow> real \<Rightarrow> real" where
  "phase_gravity sp current_z_position =
    (if account_gravity sp = 1 then
       (2 * pi * gravity_acceleration * (time_free_fall sp current_z_position) ^ 2)
         / grating_period sp
     else 0)"

subsection \<open>The body of the inner loop (lines 108 to 131)\<close>

definition distance_to_lower_side :: "real \<Rightarrow> real" where
  "distance_to_lower_side ex = \<bar>ex\<bar> * 10 ^ 9"

definition distance_to_upper_side :: "real \<Rightarrow> real \<Rightarrow> real" where
  "distance_to_upper_side x_max ex = \<bar>x_max - ex\<bar> * 10 ^ 9"

text \<open>The guard of line 113: when it holds, line 115 assigns zero and divides nothing.\<close>

definition van_der_waals_skipped :: "simulation_parameters \<Rightarrow> real \<Rightarrow> real \<Rightarrow> bool" where
  "van_der_waals_skipped sp x_max ex \<longleftrightarrow>
     account_van_der_waals sp = 0 \<or> distance_to_lower_side ex = 0
       \<or> distance_to_upper_side x_max ex = 0"

text \<open>The two denominators of line 118, in the order they are divided by.\<close>

definition van_der_waals_denominators :: "simulation_parameters \<Rightarrow> real \<Rightarrow> real \<Rightarrow> real \<times> real" where
  "van_der_waals_denominators sp x_max ex =
     (hbar * particle_velocity sp * (distance_to_lower_side ex) ^ 3,
      hbar * particle_velocity sp * (distance_to_upper_side x_max ex) ^ 3)"

definition van_der_waals_phase :: "simulation_parameters \<Rightarrow> real \<Rightarrow> real \<Rightarrow> real" where
  "van_der_waals_phase sp x_max ex =
     (if van_der_waals_skipped sp x_max ex then 0
      else - C3 * grating_thickness sp / fst (van_der_waals_denominators sp x_max ex)
           - C3 * grating_thickness sp / snd (van_der_waals_denominators sp x_max ex))"

definition fc :: "simulation_parameters \<Rightarrow> int \<Rightarrow> real \<Rightarrow> real" where
  "fc sp n ex = 2 * pi * real_of_int n * ex / grating_period sp"

text \<open>Line 122: the slot of diffraction order \<open>n\<close>; the division is C's, towards zero.\<close>

definition half_rows :: "int \<Rightarrow> int" where
  "half_rows N = (N - 1) sdiv 2"

definition order_index :: "int \<Rightarrow> int \<Rightarrow> int" where
  "order_index N n = n + half_rows N"

subsection \<open>The caller's array and the local variable read by the diagnostics\<close>

text \<open>
  The array parameter is a pointer into memory of the caller; the model is the list of
  the slots the caller allocated. C does not check an index: an access outside the list
  is undefined behaviour, which the model reports as a fault and stops at.

  \<^verbatim>\<open>phase_van_der_waals\<close> is declared without an initialiser (line 56) and assigned only
  in the body of the inner loop; \<open>None\<close> is the variable before its first assignment.
\<close>

datatype fault = OutOfBounds

record kernel_state =
  real_or_imaginary_array :: "real list"
  phase_van_der_waals :: "real option"

definition add_to_slot :: "real list \<Rightarrow> int \<Rightarrow> real \<Rightarrow> fault + real list" where
  "add_to_slot a j v =
     (if 0 \<le> j \<and> j < int (length a) then Inr (a[nat j := a ! nat j + v])
      else Inl OutOfBounds)"

definition loop_body ::
  "simulation_parameters \<Rightarrow> int \<Rightarrow> real \<Rightarrow> real \<Rightarrow> int \<Rightarrow> real \<Rightarrow> kernel_state
     \<Rightarrow> fault + kernel_state" where
  "loop_body sp real_or_imaginary x_max pg n ex st =
     (let pvdw = van_der_waals_phase sp x_max ex;
          j = order_index (number_of_rows_fourier_coefficient_array sp) n
      in
        if real_or_imaginary = 1 then
          (case add_to_slot (real_or_imaginary_array st) j (cos (pvdw + fc sp n ex + pg)) of
             Inl f \<Rightarrow> Inl f
           | Inr a \<Rightarrow> Inr \<lparr>real_or_imaginary_array = a, phase_van_der_waals = Some pvdw\<rparr>)
        else if real_or_imaginary = 2 then
          (case add_to_slot (real_or_imaginary_array st) j (sin (pvdw + fc sp n ex + pg)) of
             Inl f \<Rightarrow> Inl f
           | Inr a \<Rightarrow> Inr \<lparr>real_or_imaginary_array = a, phase_van_der_waals = Some pvdw\<rparr>)
        else
          Inr \<lparr>real_or_imaginary_array = real_or_imaginary_array st,
               phase_van_der_waals = Some pvdw\<rparr>)"

subsection \<open>The loops (lines 105 to 137)\<close>

text \<open>
  The inner loop steps a double by \<^verbatim>\<open>sp.slit_height/sp.resolution\<close> until it reaches
  \<open>x_max\<close>. Nothing makes the step positive, so the loop may run forever: the result
  \<open>None\<close> is the call that never returns.
\<close>

partial_function (option) inner_loop ::
  "simulation_parameters \<Rightarrow> int \<Rightarrow> real \<Rightarrow> real \<Rightarrow> int \<Rightarrow> real \<Rightarrow> kernel_state
     \<Rightarrow> (fault + kernel_state) option" where
  "inner_loop sp real_or_imaginary x_max pg n ex st =
     (if ex < x_max then
        (case loop_body sp real_or_imaginary x_max pg n ex st of
           Inl f \<Rightarrow> Some (Inl f)
         | Inr st' \<Rightarrow>
             inner_loop sp real_or_imaginary x_max pg n
               (ex + slit_height sp / resolution sp) st')
      else Some (Inr st))"

function outer_loop ::
  "simulation_parameters \<Rightarrow> int \<Rightarrow> real \<Rightarrow> real \<Rightarrow> real \<Rightarrow> int \<Rightarrow> kernel_state
     \<Rightarrow> (fault + kernel_state) option" where
  "outer_loop sp real_or_imaginary x_min x_max pg n st =
     (if n \<le> half_rows (number_of_rows_fourier_coefficient_array sp) then
        (case inner_loop sp real_or_imaginary x_max pg n x_min st of
           None \<Rightarrow> None
         | Some (Inl f) \<Rightarrow> Some (Inl f)
         | Some (Inr st') \<Rightarrow> outer_loop sp real_or_imaginary x_min x_max pg (n + 1) st')
      else Some (Inr st))"
  by pat_completeness auto
termination
  by (relation "measure (\<lambda>(sp, m, x_min, x_max, pg, n, st).
        nat (half_rows (number_of_rows_fourier_coefficient_array sp) + 1 - n))") auto

declare outer_loop.simps [simp del]

function normalization_loop :: "simulation_parameters \<Rightarrow> int \<Rightarrow> real list \<Rightarrow> fault + real list" where
  "normalization_loop sp i a =
     (if i < number_of_rows_fourier_coefficient_array sp then
        (if 0 \<le> i \<and> i < int (length a) then
           normalization_loop sp (i + 1) (a[nat i := a ! nat i / resolution sp])
         else Inl OutOfBounds)
      else Inr a)"
  by pat_completeness auto
termination
  by (relation "measure (\<lambda>(sp, i, a). nat (number_of_rows_fourier_coefficient_array sp - i))") auto

declare normalization_loop.simps [simp del]

subsection \<open>Diagnostics (lines 139 to 143) and the whole function\<close>

text \<open>
  A printed line is the format string of its \<^verbatim>\<open>printf\<close> and the double it is given;
  \<open>None\<close> is a variable that was never assigned. The rendering of \<^verbatim>\<open>%.3e\<close> is not modelled.
\<close>

type_synonym printed_line = "string \<times> real option"

definition gravity_format :: string where
  "gravity_format = ''Gravitational phase shift: %.3e rad'' @ [CHR 0x0A]"

definition van_der_waals_format :: string where
  "van_der_waals_format = ''Van der Waals phase shift: %.3e rad'' @ [CHR 0x0A]"

definition diagnostics :: "int \<Rightarrow> real \<Rightarrow> real option \<Rightarrow> printed_line list" where
  "diagnostics real_or_imaginary pg pvdw =
     (if real_or_imaginary = 1 then
        [(gravity_format, Some pg), (van_der_waals_format, pvdw)]
      else [])"

text \<open>
  The result is the array after the call and the lines written to standard output.
  The loops start at \<open>n = -((N-1)/2)\<close> with the array as the caller passed it.
\<close>

definition real_and_imaginary_arrays_generator ::
  "simulation_parameters \<Rightarrow> real list \<Rightarrow> int \<Rightarrow> real
     \<Rightarrow> (fault + real list \<times> printed_line list) option" where
  "real_and_imaginary_arrays_generator sp a real_or_imaginary current_z_position =
     (let x_min = x_min_of sp;
          x_max = x_max_of sp;
          pg = phase_gravity sp current_z_position
      in
        case outer_loop sp real_or_imaginary x_min x_max pg
               (- half_rows (number_of_rows_fourier_coefficient_array sp))
               \<lparr>real_or_imaginary_array = a, phase_van_der_waals = None\<rparr> of
          None \<Rightarrow> None
        | Some (Inl f) \<Rightarrow> Some (Inl f)
        | Some (Inr st) \<Rightarrow>
            (case normalization_loop sp 0 (real_or_imaginary_array st) of
               Inl f \<Rightarrow> Some (Inl f)
             | Inr a' \<Rightarrow>
                 Some (Inr (a', diagnostics real_or_imaginary pg (phase_van_der_waals st)))))"

subsection \<open>The double sum as the specification words it\<close>


definition spec_term :: "simulation_parameters \<Rightarrow> int \<Rightarrow> real \<Rightarrow> real \<Rightarrow> int \<Rightarrow> real \<Rightarrow> real" where
  "spec_term sp real_or_imaginary x_max pg n ex =
     (if real_or_imaginary = 1 then cos (van_der_waals_phase sp x_max ex + fc sp n ex + pg)
      else if real_or_imaginary = 2 then sin (van_der_waals_phase sp x_max ex + fc sp n ex + pg)
      else 0)"

subsection \<open>A concrete parameter bundle\<close>

text \<open>
  A normal beam through a slit of height 1 sampled at resolution 4, both corrections
  off, one diffraction order: the bounds are \<open>-1/4\<close> and \<open>1/4\<close>, the step is \<open>1/4\<close> and the
  samples are \<open>-1/4\<close> and \<open>0\<close>. Every value is a dyadic rational, exact in a double.
\<close>

definition example_parameters :: simulation_parameters where
  "example_parameters =
     \<lparr>tilt_angle = 0, wedge_angle = 0, slit_height = 1, grating_thickness = 1,
      grating_period = 1, resolution = 4, particle_velocity = 1, account_gravity = 0,
      account_van_der_waals = 0, number_of_rows_fourier_coefficient_array = 1\<rparr>"

section \<open>Properties of the loops\<close>

subsection \<open>Sample positions\<close>



subsection \<open>The inner loop\<close>



lemma loop_body_in_range:
  assumes "real_or_imaginary = 1 \<or> real_or_imaginary = 2 \<longrightarrow>
             0 \<le> order_index (number_of_rows_fourier_coefficient_array sp) n
             \<and> order_index (number_of_rows_fourier_coefficient_array sp) n
                 < int (length (real_or_imaginary_array st))"
  shows "loop_body sp real_or_imaginary x_max pg n ex st =
           Inr \<lparr>real_or_imaginary_array =
                  (real_or_imaginary_array st)
                    [nat (order_index (number_of_rows_fourier_coefficient_array sp) n) :=
                       real_or_imaginary_array st
                         ! nat (order_index (number_of_rows_fourier_coefficient_array sp) n)
                       + spec_term sp real_or_imaginary x_max pg n ex],
                phase_van_der_waals = Some (van_der_waals_phase sp x_max ex)\<rparr>"
  using assms by (simp add: loop_body_def add_to_slot_def spec_term_def Let_def)

lemma inner_loop_exit:
  "x_max \<le> ex \<Longrightarrow> inner_loop sp real_or_imaginary x_max pg n ex st = Some (Inr st)"
  by (subst inner_loop.simps) simp



lemma loop_body_length:
  "loop_body sp real_or_imaginary x_max pg n ex st = Inr st' \<Longrightarrow>
     length (real_or_imaginary_array st') = length (real_or_imaginary_array st)"
  by (auto simp: loop_body_def add_to_slot_def Let_def split: if_splits)

lemma inner_loop_no_return:
  assumes "inner_loop sp0 m0 x0 pg0 n0 ex0 st0 = Some y0"
  shows "\<not> (slit_height sp0 / resolution sp0 \<le> 0 \<and> ex0 < x0
            \<and> (m0 = 1 \<or> m0 = 2 \<longrightarrow>
                  0 \<le> order_index (number_of_rows_fourier_coefficient_array sp0) n0
                  \<and> order_index (number_of_rows_fourier_coefficient_array sp0) n0
                      < int (length (real_or_imaginary_array st0))))"
proof (rule inner_loop.raw_induct
    [where P = "\<lambda>sp m x_max pg n ex st y.
       \<not> (slit_height sp / resolution sp \<le> 0 \<and> ex < x_max
            \<and> (m = 1 \<or> m = 2 \<longrightarrow>
                  0 \<le> order_index (number_of_rows_fourier_coefficient_array sp) n
                  \<and> order_index (number_of_rows_fourier_coefficient_array sp) n
                      < int (length (real_or_imaginary_array st))))", OF _ assms])
  fix loop :: "simulation_parameters \<Rightarrow> int \<Rightarrow> real \<Rightarrow> real \<Rightarrow> int \<Rightarrow> real \<Rightarrow> kernel_state
     \<Rightarrow> (fault + kernel_state) option"
  fix sp real_or_imaginary x_max pg n ex st y
  assume IH: "\<And>sp m x_max pg n ex st y. loop sp m x_max pg n ex st = Some y \<Longrightarrow>
       \<not> (slit_height sp / resolution sp \<le> 0 \<and> ex < x_max
            \<and> (m = 1 \<or> m = 2 \<longrightarrow>
                  0 \<le> order_index (number_of_rows_fourier_coefficient_array sp) n
                  \<and> order_index (number_of_rows_fourier_coefficient_array sp) n
                      < int (length (real_or_imaginary_array st))))"
    and eq: "(if ex < x_max then
        (case loop_body sp real_or_imaginary x_max pg n ex st of
           Inl f \<Rightarrow> Some (Inl f)
         | Inr st' \<Rightarrow> loop sp real_or_imaginary x_max pg n
               (ex + slit_height sp / resolution sp) st')
      else Some (Inr st)) = Some y"
  show "\<not> (slit_height sp / resolution sp \<le> 0 \<and> ex < x_max
            \<and> (real_or_imaginary = 1 \<or> real_or_imaginary = 2 \<longrightarrow>
                  0 \<le> order_index (number_of_rows_fourier_coefficient_array sp) n
                  \<and> order_index (number_of_rows_fourier_coefficient_array sp) n
                      < int (length (real_or_imaginary_array st))))"
  proof
    assume inv: "slit_height sp / resolution sp \<le> 0 \<and> ex < x_max
            \<and> (real_or_imaginary = 1 \<or> real_or_imaginary = 2 \<longrightarrow>
                  0 \<le> order_index (number_of_rows_fourier_coefficient_array sp) n
                  \<and> order_index (number_of_rows_fourier_coefficient_array sp) n
                      < int (length (real_or_imaginary_array st)))"
    then obtain st1 where body: "loop_body sp real_or_imaginary x_max pg n ex st = Inr st1"
      using loop_body_in_range [of real_or_imaginary sp n st x_max pg ex] by simp
    with eq inv have run: "loop sp real_or_imaginary x_max pg n
        (ex + slit_height sp / resolution sp) st1 = Some y"
      by simp
    have "length (real_or_imaginary_array st1) = length (real_or_imaginary_array st)"
      using body by (rule loop_body_length)
    with inv have "slit_height sp / resolution sp \<le> 0
        \<and> ex + slit_height sp / resolution sp < x_max
        \<and> (real_or_imaginary = 1 \<or> real_or_imaginary = 2 \<longrightarrow>
              0 \<le> order_index (number_of_rows_fourier_coefficient_array sp) n
              \<and> order_index (number_of_rows_fourier_coefficient_array sp) n
                  < int (length (real_or_imaginary_array st1)))"
      by simp
    with IH [OF run] show False by blast
  qed
qed

lemma inner_loop_diverges:
  assumes "slit_height sp / resolution sp \<le> 0" and "ex < x_max"
    and "real_or_imaginary = 1 \<or> real_or_imaginary = 2 \<longrightarrow>
                  0 \<le> order_index (number_of_rows_fourier_coefficient_array sp) n
                  \<and> order_index (number_of_rows_fourier_coefficient_array sp) n
                      < int (length (real_or_imaginary_array st))"
  shows "inner_loop sp real_or_imaginary x_max pg n ex st = None"
proof (cases "inner_loop sp real_or_imaginary x_max pg n ex st")
  case None
  then show ?thesis .
next
  case (Some y)
  from inner_loop_no_return [OF Some] assms show ?thesis by blast
qed

subsection \<open>The loop over the diffraction orders\<close>

lemma outer_loop_exit:
  "half_rows (number_of_rows_fourier_coefficient_array sp) < n \<Longrightarrow>
     outer_loop sp real_or_imaginary x_min x_max pg n st = Some (Inr st)"
  by (subst outer_loop.simps) simp



subsection \<open>The normalization loop\<close>

lemma normalization_loop_returns:
  assumes "0 \<le> i" and "number_of_rows_fourier_coefficient_array sp \<le> int (length a)"
  shows "\<exists>a'. normalization_loop sp i a = Inr a' \<and> length a' = length a
     \<and> (\<forall>k < length a. a' ! k =
           (if i \<le> int k \<and> int k < number_of_rows_fourier_coefficient_array sp
            then a ! k / resolution sp else a ! k))"
  using assms
proof (induction "nat (number_of_rows_fourier_coefficient_array sp - i)" arbitrary: i a)
  case 0
  then have "\<not> i < number_of_rows_fourier_coefficient_array sp" by simp
  then show ?case by (subst normalization_loop.simps) simp
next
  case (Suc m)
  let ?N = "number_of_rows_fourier_coefficient_array sp"
  let ?a1 = "a[nat i := a ! nat i / resolution sp]"
  from Suc.hyps(2) have lt: "i < ?N" by simp
  with Suc.prems have i: "0 \<le> i" "i < int (length a)" by simp_all
  have unfold: "normalization_loop sp i a = normalization_loop sp (i + 1) ?a1"
    by (subst normalization_loop.simps) (simp add: lt i)
  have m: "m = nat (?N - (i + 1))" using Suc.hyps(2) by simp
  have "0 \<le> i + 1" and "?N \<le> int (length ?a1)" using Suc.prems by simp_all
  from Suc.hyps(1) [OF m this] obtain a' where
    run: "normalization_loop sp (i + 1) ?a1 = Inr a'" and len: "length a' = length ?a1"
    and slots: "\<forall>k < length ?a1. a' ! k =
           (if i + 1 \<le> int k \<and> int k < ?N then ?a1 ! k / resolution sp else ?a1 ! k)"
    by blast
  have "a' ! k = (if i \<le> int k \<and> int k < ?N then a ! k / resolution sp else a ! k)"
    if k: "k < length a" for k
  proof (cases "k = nat i")
    case True
    then have "int k = i" using i by simp
    then show ?thesis using slots k True lt by simp
  next
    case False
    then have "int k \<noteq> i" using i by linarith
    then have "(i + 1 \<le> int k) = (i \<le> int k)" by linarith
    then show ?thesis using slots k False by simp
  qed
  then show ?case using run len unfold by simp
qed

lemma normalization_loop_all:
  assumes "length a = nat (number_of_rows_fourier_coefficient_array sp)"
  shows "normalization_loop sp 0 a = Inr (map (\<lambda>x. x / resolution sp) a)"
proof -
  have "number_of_rows_fourier_coefficient_array sp \<le> int (length a)"
    using assms by simp
  from normalization_loop_returns [OF order_refl this] obtain a' where
    run: "normalization_loop sp 0 a = Inr a'" and len: "length a' = length a"
    and slots: "\<forall>k < length a. a' ! k =
           (if 0 \<le> int k \<and> int k < number_of_rows_fourier_coefficient_array sp
            then a ! k / resolution sp else a ! k)"
    by blast
  have "a' = map (\<lambda>x. x / resolution sp) a"
  proof (rule nth_equalityI)
    show "length a' = length (map (\<lambda>x. x / resolution sp) a)" using len by simp
  next
    fix k assume "k < length a'"
    then have k: "k < length a" using len by simp
    then have "int k < number_of_rows_fourier_coefficient_array sp" using assms by linarith
    then show "a' ! k = map (\<lambda>x. x / resolution sp) a ! k" using slots k by simp
  qed
  then show ?thesis using run by simp
qed

subsection \<open>The whole call\<close>

lemma half_rows_nonneg: "1 \<le> N \<Longrightarrow> half_rows N = (N - 1) div 2"
  by (simp add: half_rows_def signed_divide_int_def sgn_if)

lemma half_rows_bounds: "1 \<le> N \<Longrightarrow> 0 \<le> half_rows N \<and> 2 * half_rows N < N"
  by (simp add: half_rows_nonneg)


lemma outer_loop_empty_range:
  assumes "x_max \<le> x_min"
  shows "outer_loop sp real_or_imaginary x_min x_max pg n0 st = Some (Inr st)"
proof (induction "nat (half_rows (number_of_rows_fourier_coefficient_array sp) + 1 - n0)"
         arbitrary: n0)
  case 0
  then have "half_rows (number_of_rows_fourier_coefficient_array sp) < n0" by simp
  then show ?case by (simp add: outer_loop_exit)
next
  case (Suc k)
  then have le: "n0 \<le> half_rows (number_of_rows_fourier_coefficient_array sp)"
    and k: "k = nat (half_rows (number_of_rows_fourier_coefficient_array sp) + 1 - (n0 + 1))"
    by simp_all
  have "outer_loop sp real_or_imaginary x_min x_max pg n0 st
      = outer_loop sp real_or_imaginary x_min x_max pg (n0 + 1) st"
    by (subst outer_loop.simps) (simp add: le inner_loop_exit [OF assms])
  with Suc.hyps(1) [OF k] show ?case by simp
qed

lemma outer_loop_diverges:
  assumes d: "slit_height sp / resolution sp \<le> 0" and lt: "x_min < x_max"
    and le: "n0 \<le> half_rows (number_of_rows_fourier_coefficient_array sp)"
    and rng: "real_or_imaginary = 1 \<or> real_or_imaginary = 2 \<longrightarrow>
                  0 \<le> order_index (number_of_rows_fourier_coefficient_array sp) n0
                  \<and> order_index (number_of_rows_fourier_coefficient_array sp) n0
                      < int (length (real_or_imaginary_array st))"
  shows "outer_loop sp real_or_imaginary x_min x_max pg n0 st = None"
  by (subst outer_loop.simps) (simp add: le inner_loop_diverges [OF d lt rng])

lemma generator_empty_range:
  assumes "x_max_of sp \<le> x_min_of sp"
    and "length a = nat (number_of_rows_fourier_coefficient_array sp)"
  shows "real_and_imaginary_arrays_generator sp a real_or_imaginary z =
     Some (Inr (map (\<lambda>x. x / resolution sp) a,
                diagnostics real_or_imaginary (phase_gravity sp z) None))"
  using assms
  by (simp add: real_and_imaginary_arrays_generator_def outer_loop_empty_range
        normalization_loop_all)



text \<open>Without a positive step and with a sample to take, the call never returns.\<close>

lemma generator_diverges:
  assumes d: "slit_height sp / resolution sp \<le> 0" and lt: "x_min_of sp < x_max_of sp"
    and N: "1 \<le> number_of_rows_fourier_coefficient_array sp"
    and len: "length a = nat (number_of_rows_fourier_coefficient_array sp)"
  shows "real_and_imaginary_arrays_generator sp a real_or_imaginary z = None"
proof -
  let ?N = "number_of_rows_fourier_coefficient_array sp"
  have h: "0 \<le> half_rows ?N" "2 * half_rows ?N < ?N"
    using half_rows_bounds [OF N] by simp_all
  have "outer_loop sp real_or_imaginary (x_min_of sp) (x_max_of sp) (phase_gravity sp z)
          (- half_rows ?N) \<lparr>real_or_imaginary_array = a, phase_van_der_waals = None\<rparr> = None"
    by (rule outer_loop_diverges [OF d lt]) (use h len in \<open>simp_all add: order_index_def\<close>)
  then show ?thesis
    by (simp add: real_and_imaginary_arrays_generator_def)
qed

subsection \<open>The concrete parameter bundle\<close>


lemma example_bounds:
  "x_min_of example_parameters = - (1 / 4)" "x_max_of example_parameters = 1 / 4"
  by (simp_all add: example_parameters_def x_min_of_def x_max_of_def integration_bounds_def)


section \<open>The claims\<close>




text \<open>
  C2. The bounds follow the four-way branch: for a tilt angle of at least zero \<open>x_min\<close>
  is \<open>slit_height * (1 / resolution - cos tilt / 2)\<close> and \<open>x_max\<close> is
  \<open>slit_height * cos tilt / 2 - slit_height / resolution\<close>, plus the wedge term
  \<open>grating_thickness * (tan wedge - tan tilt)\<close> when the tilt exceeds the wedge angle; for
  a negative tilt \<open>x_max\<close> is that first value and \<open>x_min\<close> is
  \<open>- (slit_height * cos tilt / 2) + slit_height / resolution\<close>, minus the wedge term when
  the absolute tilt exceeds the wedge angle.
\<close>

theorem integration_bounds_four_way:
  "(0 \<le> tilt_angle sp \<longrightarrow>
      x_min_of sp = slit_height sp * (1 / resolution sp - cos (tilt_angle sp) / 2)
      \<and> (tilt_angle sp \<le> wedge_angle sp \<longrightarrow>
           x_max_of sp = slit_height sp * cos (tilt_angle sp) / 2 - slit_height sp / resolution sp)
      \<and> (\<not> tilt_angle sp \<le> wedge_angle sp \<longrightarrow>
           x_max_of sp = slit_height sp * cos (tilt_angle sp) / 2 - slit_height sp / resolution sp
             + grating_thickness sp * (tan (wedge_angle sp) - tan (tilt_angle sp))))
   \<and> (tilt_angle sp < 0 \<longrightarrow>
      x_max_of sp = slit_height sp * cos (tilt_angle sp) / 2 - slit_height sp / resolution sp
      \<and> (\<bar>tilt_angle sp\<bar> \<le> wedge_angle sp \<longrightarrow>
           x_min_of sp = - (slit_height sp * cos (tilt_angle sp) / 2) + slit_height sp / resolution sp)
      \<and> (\<not> \<bar>tilt_angle sp\<bar> \<le> wedge_angle sp \<longrightarrow>
           x_min_of sp = - (slit_height sp * cos (tilt_angle sp) / 2) + slit_height sp / resolution sp
             - grating_thickness sp * (tan (wedge_angle sp) - tan (tilt_angle sp))))"
  by (simp add: x_min_of_def x_max_of_def integration_bounds_def Let_def)

text \<open>
  One bundle for each of the four branches.
\<close>

theorem integration_bounds_four_way_witness:
  "x_min_of (example_parameters\<lparr>tilt_angle := 0, wedge_angle := 0\<rparr>) = - (1 / 4)
   \<and> x_max_of (example_parameters\<lparr>tilt_angle := 0, wedge_angle := 0\<rparr>) = 1 / 4
   \<and> x_max_of (example_parameters\<lparr>tilt_angle := 0, wedge_angle := - 1\<rparr>) = 1 / 4 + tan (- 1)
   \<and> x_max_of (example_parameters\<lparr>tilt_angle := - 1, wedge_angle := 1\<rparr>) = cos 1 / 2 - 1 / 4
   \<and> x_min_of (example_parameters\<lparr>tilt_angle := - 1, wedge_angle := 1\<rparr>) = 1 / 4 - cos 1 / 2
   \<and> x_min_of (example_parameters\<lparr>tilt_angle := - 1, wedge_angle := 0\<rparr>) = 1 / 4 - cos 1 / 2 - tan 1"
  using integration_bounds_four_way [of "example_parameters\<lparr>tilt_angle := 0, wedge_angle := 0\<rparr>"]
        integration_bounds_four_way [of "example_parameters\<lparr>tilt_angle := 0, wedge_angle := - 1\<rparr>"]
        integration_bounds_four_way [of "example_parameters\<lparr>tilt_angle := - 1, wedge_angle := 1\<rparr>"]
        integration_bounds_four_way [of "example_parameters\<lparr>tilt_angle := - 1, wedge_angle := 0\<rparr>"]
  by (simp add: example_parameters_def)





text \<open>
  C5. For every odd \<open>N \<ge> 1\<close> the index \<open>j = n + (N-1)/2\<close> is a bijection from the
  diffraction orders \<open>-(N-1)/2 .. (N-1)/2\<close> onto the array indices \<open>0 .. N-1\<close>: every order
  lands in the range, distinct orders get distinct indices, and every index is hit.
\<close>

theorem order_index_bijection:
  assumes "odd N" and "1 \<le> N"
  shows "bij_betw (order_index N) {- half_rows N .. half_rows N} {0 .. N - 1}
     \<and> (\<forall>n \<in> {- half_rows N .. half_rows N}. 0 \<le> order_index N n \<and> order_index N n \<le> N - 1)
     \<and> inj_on (order_index N) {- half_rows N .. half_rows N}
     \<and> order_index N ` {- half_rows N .. half_rows N} = {0 .. N - 1}"
proof -
  have h: "2 * half_rows N = N - 1"
    using assms by (simp add: half_rows_nonneg)
  have inj: "inj_on (order_index N) {- half_rows N .. half_rows N}"
    by (simp add: inj_on_def order_index_def)
  have img: "order_index N ` {- half_rows N .. half_rows N} = {0 .. N - 1}"
  proof -
    have "order_index N ` {- half_rows N .. half_rows N}
            = (\<lambda>n. n + half_rows N) ` {- half_rows N .. half_rows N}"
      by (simp add: order_index_def)
    also have "\<dots> = {- half_rows N + half_rows N .. half_rows N + half_rows N}"
      by (rule image_add_atLeastAtMost')
    also have "\<dots> = {0 .. N - 1}"
      using h by simp
    finally show ?thesis .
  qed
  have rng: "\<forall>n \<in> {- half_rows N .. half_rows N}. 0 \<le> order_index N n \<and> order_index N n \<le> N - 1"
    using h by (auto simp: order_index_def)
  show ?thesis
    using inj img rng by (simp add: bij_betw_def)
qed

theorem order_index_bijection_witness:
  "odd (3::int) \<and> (1::int) \<le> 3
     \<and> bij_betw (order_index 3) {- half_rows 3 .. half_rows 3} {0 .. 3 - 1}
     \<and> half_rows 3 = 1 \<and> order_index 3 (-1) = 0 \<and> order_index 3 0 = 1 \<and> order_index 3 1 = 2"
  using order_index_bijection [of 3]
  by (simp add: order_index_def half_rows_def signed_divide_int_def)











text \<open>
  C10. When the derived bounds satisfy \<open>x_min \<ge> x_max\<close> the body of the inner loop, the
  only place that assigns \<open>phase_van_der_waals\<close>, is never executed: in mode 1 the call
  returns and its Van der Waals line prints the variable unassigned.
\<close>

theorem empty_range_prints_unassigned:
  assumes "x_max_of sp \<le> x_min_of sp"
    and "length a = nat (number_of_rows_fourier_coefficient_array sp)"
  shows "outer_loop sp 1 (x_min_of sp) (x_max_of sp) (phase_gravity sp z)
           (- half_rows (number_of_rows_fourier_coefficient_array sp))
           \<lparr>real_or_imaginary_array = a, phase_van_der_waals = None\<rparr>
         = Some (Inr \<lparr>real_or_imaginary_array = a, phase_van_der_waals = None\<rparr>)
     \<and> real_and_imaginary_arrays_generator sp a 1 z =
         Some (Inr (map (\<lambda>x. x / resolution sp) a,
                    [(gravity_format, Some (phase_gravity sp z)),
                     (van_der_waals_format, None)]))"
  using assms by (simp add: outer_loop_empty_range generator_empty_range diagnostics_def)

theorem empty_range_prints_unassigned_witness:
  "x_max_of (example_parameters\<lparr>resolution := 1\<rparr>) = - (1 / 2)
   \<and> x_min_of (example_parameters\<lparr>resolution := 1\<rparr>) = 1 / 2
   \<and> real_and_imaginary_arrays_generator (example_parameters\<lparr>resolution := 1\<rparr>) [0] 1 0
       = Some (Inr ([0], [(gravity_format, Some 0), (van_der_waals_format, None)]))"
proof -
  let ?p = "example_parameters\<lparr>resolution := 1\<rparr>"
  have b: "x_max_of ?p = - (1 / 2)" "x_min_of ?p = 1 / 2"
    by (simp_all add: example_parameters_def x_min_of_def x_max_of_def integration_bounds_def)
  have h: "x_max_of ?p \<le> x_min_of ?p"
    "length [0 :: real] = nat (number_of_rows_fourier_coefficient_array ?p)"
    by (simp_all add: b) (simp add: example_parameters_def)
  from empty_range_prints_unassigned [OF h, of 0] b show ?thesis
    by (simp add: phase_gravity_def example_parameters_def)
qed

end
